theory Spec2Isabelle
  imports Complex_Main "HOL-Library.Sublist"
begin

section \<open>Python and pydub primitives used by \<^verbatim>\<open>main.py\<close>\<close>

text \<open>
  \<^verbatim>\<open>main.py\<close> manipulates \<^verbatim>\<open>pydub.AudioSegment\<close> values through four operations:
  slicing by milliseconds (\<^verbatim>\<open>seg[:n]\<close>, \<^verbatim>\<open>seg[n:]\<close>), concatenation (\<^verbatim>\<open>+\<close>),
  \<^verbatim>\<open>fade_in\<close> and \<^verbatim>\<open>fade_out\<close>.  The library is not part of the repository; the
  definitions of this section follow pydub's \<^verbatim>\<open>audio_segment.py\<close> at millisecond
  granularity: an audio segment is the list of its frames and one list element stands
  for one millisecond of audio (a segment whose frame rate is 1000 Hz, frame width 1).
  With that, \<^verbatim>\<open>len(seg)\<close> is the length of the list, \<^verbatim>\<open>frame_count(ms=n)\<close> is \<open>n\<close>,
  and \<^verbatim>\<open>seg1 + seg2\<close> (\<^verbatim>\<open>append\<close> with \<^verbatim>\<open>crossfade=0\<close> on segments of one format) is
  list append.  \<^verbatim>\<open>audioop.mul(fragment, width, factor)\<close>, which scales every sample of a
  fragment, is the parameter \<open>mul\<close>, applied frame by frame.  Gains are rationals.
\<close>

datatype error = TooManyMissingFrames | NotModelled

text \<open>Python's slice of a sequence, \<^verbatim>\<open>data[a:b]\<close>: a negative index counts from the
  end, and both indices are clamped to the sequence.\<close>

definition py_index :: "nat \<Rightarrow> int \<Rightarrow> nat" where
  "py_index n i =
     (if i < 0 then (if int n + i < 0 then 0 else nat (int n + i))
      else (if int n < i then n else nat i))"

definition py_slice :: "'a list \<Rightarrow> int \<Rightarrow> int \<Rightarrow> 'a list" where
  "py_slice xs a b =
     (let lo = py_index (length xs) a;
          hi = py_index (length xs) b
      in take (hi - lo) (drop lo xs))"

text \<open>Python's \<^verbatim>\<open>int(x)\<close> on a float truncates towards zero.  Timestamps are floats
  in the source; they are modelled as rationals, and the product \<^verbatim>\<open>t * 1000\<close> is exact
  (the rounding of the float product is not modelled).\<close>

definition py_int :: "rat \<Rightarrow> int" where
  "py_int x = (if 0 \<le> x then \<lfloor>x\<rfloor> else \<lceil>x\<rceil>)"

definition len_ms :: "'a list \<Rightarrow> int" where
  "len_ms seg = int (length seg)"

text \<open>\<^verbatim>\<open>AudioSegment._parse_position\<close>:
  \<^verbatim>\<open>if val < 0: val = len(self) - abs(val)\<close>, then \<^verbatim>\<open>int(self.frame_count(ms=val))\<close>.\<close>

definition parse_position :: "'a list \<Rightarrow> int \<Rightarrow> int" where
  "parse_position seg val = (if val < 0 then len_ms seg - \<bar>val\<bar> else val)"

text \<open>\<^verbatim>\<open>AudioSegment.__getitem__\<close> on a slice without step.  Both bounds are capped at
  \<^verbatim>\<open>len(self)\<close>, turned into frame positions, and the raw data is sliced as Python
  slices bytes.  When the data is shorter than \<^verbatim>\<open>end - start\<close>, up to two milliseconds
  of silence (the first frame scaled by 0) are appended, and more than that raises
  \<^verbatim>\<open>TooManyMissingFrames\<close>.\<close>

definition getitem_slice ::
  "('a \<Rightarrow> rat \<Rightarrow> 'a) \<Rightarrow> 'a list \<Rightarrow> int option \<Rightarrow> int option \<Rightarrow> error + 'a list" where
  "getitem_slice mul seg start stop =
     (let start0 = (case start of None \<Rightarrow> 0 | Some s \<Rightarrow> s);
          stop0 = (case stop of None \<Rightarrow> len_ms seg | Some e \<Rightarrow> e);
          start1 = min start0 (len_ms seg);
          stop1 = min stop0 (len_ms seg);
          s = parse_position seg start1;
          e = parse_position seg stop1;
          data = py_slice seg s e;
          expected_length = e - s;
          missing_frames = expected_length - int (length data)
      in if missing_frames \<noteq> 0 then
           (if missing_frames > 2 then Inl TooManyMissingFrames
            else Inr (data @ concat (replicate (nat missing_frames)
                                       (map (\<lambda>x. mul x 0) (take 1 data)))))
         else Inr data)"

text \<open>\<^verbatim>\<open>AudioSegment.get_frame(index)\<close> is \<^verbatim>\<open>self._data[index*fw : index*fw + fw]\<close>.\<close>

definition get_frame :: "'a list \<Rightarrow> int \<Rightarrow> 'a list" where
  "get_frame seg index = py_slice seg index (index + 1)"

text \<open>\<^verbatim>\<open>db_to_float(db)\<close> is \<^verbatim>\<open>10 ** (db / 20)\<close>; the fades use 0 dB and -120 dB only.\<close>

definition db_to_float :: "int \<Rightarrow> rat" where
  "db_to_float db = (if 0 \<le> db then 10 ^ nat (db div 20) else 1 / 10 ^ nat ((- db) div 20))"

text \<open>The window \<^verbatim>\<open>(start, end)\<close> that \<^verbatim>\<open>AudioSegment.fade\<close> computes for
  \<^verbatim>\<open>fade_in(d)\<close> (\<^verbatim>\<open>start=0\<close>: \<^verbatim>\<open>start = min(len(self), 0)\<close>, \<^verbatim>\<open>end = start + duration\<close>) and
  for \<^verbatim>\<open>fade_out(d)\<close> (\<^verbatim>\<open>end=inf\<close>: \<^verbatim>\<open>end = min(len(self), inf)\<close>,
  \<^verbatim>\<open>start = end - duration\<close>).  Neither is compared with the segment's length
  afterwards.\<close>

definition fade_in_window :: "int \<Rightarrow> 'a list \<Rightarrow> int \<times> int" where
  "fade_in_window d seg = (let start = min (len_ms seg) 0 in (start, start + d))"

definition fade_out_window :: "int \<Rightarrow> 'a list \<Rightarrow> int \<times> int" where
  "fade_out_window d seg = (let stop = len_ms seg in (stop - d, stop))"

text \<open>The body of \<^verbatim>\<open>AudioSegment.fade\<close> once \<^verbatim>\<open>start\<close>, \<^verbatim>\<open>end\<close> and \<^verbatim>\<open>duration\<close> are
  known, on its per-frame branch (\<^verbatim>\<open>duration <= 100\<close>):
  \<^verbatim>\<open>before_fade = self[:start]\<close>, scaled by \<^verbatim>\<open>from_power\<close> when \<^verbatim>\<open>from_gain != 0\<close>;
  then for \<^verbatim>\<open>i in range(fade_frames)\<close> the frame \<^verbatim>\<open>get_frame(start_frame + i)\<close> scaled by
  \<^verbatim>\<open>from_power + scale_step * i\<close>; then \<^verbatim>\<open>after_fade = self[end:]\<close>, scaled by
  \<^verbatim>\<open>db_to_float(to_gain)\<close> when \<^verbatim>\<open>to_gain != 0\<close>.\<close>

definition fade_frames ::
  "('a \<Rightarrow> rat \<Rightarrow> 'a) \<Rightarrow> 'a list \<Rightarrow> rat \<Rightarrow> rat \<Rightarrow> int \<Rightarrow> nat \<Rightarrow> 'a list" where
  "fade_frames mul seg from_power scale_step start_frame n =
     concat (map (\<lambda>i. map (\<lambda>x. mul x (from_power + scale_step * of_nat i))
                          (get_frame seg (start_frame + int i))) [0..<n])"

definition fade ::
  "('a \<Rightarrow> rat \<Rightarrow> 'a) \<Rightarrow> 'a list \<Rightarrow> int \<Rightarrow> int \<Rightarrow> int \<times> int \<Rightarrow> error + 'a list" where
  "fade mul seg to_gain from_gain window =
     (let start = fst window;
          stop = snd window;
          duration = stop - start;
          from_power = db_to_float from_gain;
          gain_delta = db_to_float to_gain - from_power;
          scale_step = gain_delta / of_int duration
      in if duration \<le> 0 \<or> 100 < duration then Inl NotModelled
         else
           (case getitem_slice mul seg None (Some start) of
              Inl e \<Rightarrow> Inl e
            | Inr before_fade \<Rightarrow>
               (case getitem_slice mul seg (Some stop) None of
                  Inl e \<Rightarrow> Inl e
                | Inr after_fade \<Rightarrow>
                   Inr ((if from_gain \<noteq> 0 then map (\<lambda>x. mul x from_power) before_fade
                         else before_fade)
                        @ fade_frames mul seg from_power scale_step start (nat duration)
                        @ (if to_gain \<noteq> 0 then map (\<lambda>x. mul x (db_to_float to_gain)) after_fade
                           else after_fade)))))"

text \<open>\<^verbatim>\<open>fade_in(duration)\<close> is \<^verbatim>\<open>fade(from_gain=-120, duration=duration, start=0)\<close> and
  \<^verbatim>\<open>fade_out(duration)\<close> is \<^verbatim>\<open>fade(to_gain=-120, duration=duration, end=float('inf'))\<close>.
  Durations outside \<open>1..100\<close> (the per-millisecond branch of \<^verbatim>\<open>fade\<close> and its argument
  errors) are not modelled; \<^verbatim>\<open>main.py\<close> passes the literal 20.\<close>

definition fade_in :: "('a \<Rightarrow> rat \<Rightarrow> 'a) \<Rightarrow> int \<Rightarrow> 'a list \<Rightarrow> error + 'a list" where
  "fade_in mul d seg = fade mul seg 0 (- 120) (fade_in_window d seg)"

definition fade_out :: "('a \<Rightarrow> rat \<Rightarrow> 'a) \<Rightarrow> int \<Rightarrow> 'a list \<Rightarrow> error + 'a list" where
  "fade_out mul d seg = fade mul seg (- 120) 0 (fade_out_window d seg)"

section \<open>The moderator of \<^verbatim>\<open>main.py\<close>\<close>

text \<open>The dictionaries of the source have fixed keys: a transcribed word has \<^verbatim>\<open>word\<close>,
  \<^verbatim>\<open>start_time\<close>, \<^verbatim>\<open>end_time\<close>; a detected instance has \<^verbatim>\<open>censored_text\<close> as well.\<close>

record text_segment =
  word :: string
  start_time :: rat
  end_time :: rat

record profanity_instance = text_segment +
  censored_text :: string

text \<open>Whisper's result: each segment may carry a \<^verbatim>\<open>"words"\<close> list of entries with keys
  \<^verbatim>\<open>word\<close>, \<^verbatim>\<open>start\<close>, \<^verbatim>\<open>end\<close>.\<close>

record whisper_word =
  ww_word :: string
  ww_start :: rat
  ww_end :: rat

type_synonym whisper_segment = "whisper_word list option"

text \<open>\<^verbatim>\<open>_transcribe_audio\<close>, after the model's call: the words of every segment that has
  a \<^verbatim>\<open>"words"\<close> key, in order.  \<open>strip_lower\<close> is Python's \<^verbatim>\<open>.strip().lower()\<close>.\<close>

fun segment_words :: "(string \<Rightarrow> string) \<Rightarrow> whisper_word list \<Rightarrow> text_segment list" where
  "segment_words strip_lower [] = []"
| "segment_words strip_lower (word_info # rest) =
     \<lparr>word = strip_lower (ww_word word_info),
      start_time = ww_start word_info,
      end_time = ww_end word_info\<rparr> # segment_words strip_lower rest"

fun transcribe_audio :: "(string \<Rightarrow> string) \<Rightarrow> whisper_segment list \<Rightarrow> text_segment list" where
  "transcribe_audio strip_lower [] = []"
| "transcribe_audio strip_lower (segment # rest) =
     (case segment of
        None \<Rightarrow> transcribe_audio strip_lower rest
      | Some ws \<Rightarrow> segment_words strip_lower ws @ transcribe_audio strip_lower rest)"

text \<open>\<^verbatim>\<open>_detect_profanity\<close>.  The lexicon (\<^verbatim>\<open>better_profanity\<close>) is the pair of parameters
  \<open>contains_profanity\<close> and \<open>censor\<close>.\<close>

fun detect_profanity ::
  "(string \<Rightarrow> bool) \<Rightarrow> (string \<Rightarrow> string) \<Rightarrow> text_segment list \<Rightarrow> profanity_instance list" where
  "detect_profanity contains_profanity censor [] = []"
| "detect_profanity contains_profanity censor (segment # rest) =
     (if contains_profanity (word segment)
      then \<lparr>word = word segment,
            start_time = start_time segment,
            end_time = end_time segment,
            censored_text = censor (word segment)\<rparr>
           # detect_profanity contains_profanity censor rest
      else detect_profanity contains_profanity censor rest)"

text \<open>The body of the loop of \<^verbatim>\<open>_replace_profanity\<close>, in the order Python evaluates it:
  \<^verbatim>\<open>
  start_ms = int(instance['start_time'] * 1000)
  end_ms = int(instance['end_time'] * 1000)
  duration = end_ms - start_ms
  adjusted_replacement = self.replacement_sound[:duration]
  adjusted_replacement = adjusted_replacement.fade_in(20).fade_out(20)
  audio = audio[:start_ms] + adjusted_replacement + audio[end_ms:]
  \<close>\<close>

definition start_ms :: "('b profanity_instance_scheme) \<Rightarrow> int" where
  "start_ms inst = py_int (start_time inst * 1000)"

definition end_ms :: "('b profanity_instance_scheme) \<Rightarrow> int" where
  "end_ms inst = py_int (end_time inst * 1000)"

definition adjusted_replacement ::
  "('a \<Rightarrow> rat \<Rightarrow> 'a) \<Rightarrow> 'a list \<Rightarrow> int \<Rightarrow> error + 'a list" where
  "adjusted_replacement mul replacement_sound duration =
     (case getitem_slice mul replacement_sound None (Some duration) of
        Inl e \<Rightarrow> Inl e
      | Inr taken \<Rightarrow>
         (case fade_in mul 20 taken of
            Inl e \<Rightarrow> Inl e
          | Inr faded \<Rightarrow> fade_out mul 20 faded))"

definition splice_step ::
  "('a \<Rightarrow> rat \<Rightarrow> 'a) \<Rightarrow> 'a list \<Rightarrow> 'a list \<Rightarrow> profanity_instance \<Rightarrow> error + 'a list" where
  "splice_step mul replacement_sound audio inst =
     (let duration = end_ms inst - start_ms inst
      in case adjusted_replacement mul replacement_sound duration of
           Inl e \<Rightarrow> Inl e
         | Inr adjusted \<Rightarrow>
            (case getitem_slice mul audio None (Some (start_ms inst)) of
               Inl e \<Rightarrow> Inl e
             | Inr head_part \<Rightarrow>
                (case getitem_slice mul audio (Some (end_ms inst)) None of
                   Inl e \<Rightarrow> Inl e
                 | Inr tail_part \<Rightarrow> Inr (head_part @ adjusted @ tail_part))))"

fun splice_loop ::
  "('a \<Rightarrow> rat \<Rightarrow> 'a) \<Rightarrow> 'a list \<Rightarrow> 'a list \<Rightarrow> profanity_instance list \<Rightarrow> error + 'a list" where
  "splice_loop mul replacement_sound audio [] = Inr audio"
| "splice_loop mul replacement_sound audio (inst # rest) =
     (case splice_step mul replacement_sound audio inst of
        Inl e \<Rightarrow> Inl e
      | Inr audio' \<Rightarrow> splice_loop mul replacement_sound audio' rest)"

text \<open>\<^verbatim>\<open>_replace_profanity\<close>.  \<^verbatim>\<open>profanity_instances.sort(key=...)\<close> sorts the caller's
  list in place (Python's sort is stable), so the function is modelled with the list as
  state: it returns the new contents of the list together with the processed audio, or
  the exception raised while splicing.\<close>

definition replace_profanity ::
  "('a \<Rightarrow> rat \<Rightarrow> 'a) \<Rightarrow> 'a list \<Rightarrow> 'a list \<Rightarrow> profanity_instance list
     \<Rightarrow> profanity_instance list \<times> (error + 'a list)" where
  "replace_profanity mul replacement_sound audio profanity_instances =
     (let sorted_instances = sort_key start_time profanity_instances
      in (sorted_instances, splice_loop mul replacement_sound audio sorted_instances))"

subsection \<open>List objects and aliasing\<close>

text \<open>A Python list is an object: \<^verbatim>\<open>process_audio\<close> hands the list that
  \<^verbatim>\<open>_detect_profanity\<close> built to \<^verbatim>\<open>_replace_profanity\<close> and then returns that same
  object.  The store maps the address of a list object to its contents; \<open>next_free\<close> is
  the first address not yet in use.\<close>

record store =
  cells :: "nat \<Rightarrow> profanity_instance list"
  next_free :: nat

definition new_list :: "store \<Rightarrow> profanity_instance list \<Rightarrow> store \<times> nat" where
  "new_list h xs = (h\<lparr>cells := (cells h)(next_free h := xs), next_free := Suc (next_free h)\<rparr>,
                    next_free h)"

definition replace_profanity_obj ::
  "('a \<Rightarrow> rat \<Rightarrow> 'a) \<Rightarrow> 'a list \<Rightarrow> store \<Rightarrow> 'a list \<Rightarrow> nat \<Rightarrow> store \<times> (error + 'a list)" where
  "replace_profanity_obj mul replacement_sound h audio ref =
     (let r = replace_profanity mul replacement_sound audio (cells h ref)
      in (h\<lparr>cells := (cells h)(ref := fst r)\<rparr>, snd r))"

text \<open>\<^verbatim>\<open>process_audio\<close>, given the decoded audio and Whisper's result for the input file.
  It returns the processed audio and the reference to the list of instances.\<close>

definition process_audio ::
  "('a \<Rightarrow> rat \<Rightarrow> 'a) \<Rightarrow> (string \<Rightarrow> string) \<Rightarrow> (string \<Rightarrow> bool) \<Rightarrow> (string \<Rightarrow> string) \<Rightarrow> 'a list
     \<Rightarrow> store \<Rightarrow> 'a list \<Rightarrow> whisper_segment list \<Rightarrow> store \<times> (error + ('a list \<times> nat))" where
  "process_audio mul strip_lower contains_profanity censor replacement_sound h audio result =
     (let text_segments = transcribe_audio strip_lower result;
          (h1, profanity_instances) =
             new_list h (detect_profanity contains_profanity censor text_segments);
          (h2, processed) = replace_profanity_obj mul replacement_sound h1 audio profanity_instances
      in (h2, case processed of
                Inl e \<Rightarrow> Inl e
              | Inr processed_audio \<Rightarrow> Inr (processed_audio, profanity_instances)))"

subsection \<open>The report\<close>

fun show_nat :: "nat \<Rightarrow> string" where
  "show_nat n =
     (if n < 10 then [''0123456789'' ! n]
      else show_nat (n div 10) @ [''0123456789'' ! (n mod 10)])"

text \<open>\<^verbatim>\<open>save_report\<close> returns what it writes to the file.  \<open>fmt2\<close> is the float format
  \<^verbatim>\<open>:.2f\<close>.  The loop numbers the instances from 1.\<close>

fun report_instances ::
  "(rat \<Rightarrow> string) \<Rightarrow> nat \<Rightarrow> profanity_instance list \<Rightarrow> string" where
  "report_instances fmt2 idx [] = []"
| "report_instances fmt2 idx (inst # rest) =
     ''Instance '' @ show_nat idx @ '':\<newline>''
     @ ''Word: '' @ word inst @ ''\<newline>''
     @ ''Censored Version: '' @ censored_text inst @ ''\<newline>''
     @ ''Timestamp: '' @ fmt2 (start_time inst) @ ''s - '' @ fmt2 (end_time inst) @ ''s\<newline>''
     @ replicate 20 (CHR ''-'') @ ''\<newline>''
     @ report_instances fmt2 (Suc idx) rest"

definition report_header :: string where
  "report_header = ''Audio Content Moderation Report\<newline>'' @ replicate 30 (CHR ''='') @ ''\<newline>\<newline>''"

definition save_report :: "(rat \<Rightarrow> string) \<Rightarrow> profanity_instance list \<Rightarrow> string" where
  "save_report fmt2 profanity_instances =
     report_header
     @ (if profanity_instances = [] then ''No profanity detected in the audio.\<newline>''
        else ''Total instances found: '' @ show_nat (length profanity_instances) @ ''\<newline>\<newline>''
             @ report_instances fmt2 1 profanity_instances)"

section \<open>Notions used in the statements\<close>


text \<open>Provenance: to follow the frames of the original audio through the splicer, a
  frame is tagged \<open>Inl\<close> when it comes from the original audio and \<open>Inr\<close> when it comes
  from the replacement clip; scaling a frame keeps its tag.  \<open>original_frames\<close> reads
  the original frames of a buffer, in order.\<close>

definition tag_mul :: "('a \<Rightarrow> rat \<Rightarrow> 'a) \<Rightarrow> ('b \<Rightarrow> rat \<Rightarrow> 'b) \<Rightarrow> 'a + 'b \<Rightarrow> rat \<Rightarrow> 'a + 'b" where
  "tag_mul mul_original mul_clip x g =
     (case x of Inl a \<Rightarrow> Inl (mul_original a g) | Inr b \<Rightarrow> Inr (mul_clip b g))"





section \<open>Slicing and fading\<close>

text \<open>Slices with a non-negative bound are \<open>take\<close> and \<open>drop\<close>; a slice \<^verbatim>\<open>seg[:n]\<close>
  never raises.\<close>

lemma py_index_nonneg: "0 \<le> i \<Longrightarrow> py_index n i = min n (nat i)"
  by (simp add: py_index_def)

lemma py_slice_nonneg:
  "0 \<le> a \<Longrightarrow> 0 \<le> b \<Longrightarrow> py_slice xs a b = take (nat b - nat a) (drop (nat a) xs)"
  by (simp add: py_slice_def py_index_nonneg Let_def min_def)

lemma parse_position_nonneg: "0 \<le> v \<Longrightarrow> parse_position seg v = v"
  by (simp add: parse_position_def)

lemma getitem_slice_no_missing:
  assumes "parse_position seg (min (case start of None \<Rightarrow> 0 | Some s \<Rightarrow> s) (len_ms seg)) = s"
    and "parse_position seg (min (case stop of None \<Rightarrow> len_ms seg | Some e \<Rightarrow> e) (len_ms seg)) = e"
    and "py_slice seg s e = data"
    and "e - s \<le> int (length data)"
  shows "getitem_slice mul seg start stop = Inr data"
proof -
  have "nat (e - s - int (length data)) = 0" using assms(4) by simp
  then show ?thesis
    unfolding getitem_slice_def Let_def assms(1) assms(2) assms(3)
    using assms(4) by simp
qed

lemma getitem_slice_to:
  assumes "0 \<le> n"
  shows "getitem_slice mul seg None (Some n) = Inr (take (nat n) seg)"
proof (rule getitem_slice_no_missing)
  show "parse_position seg (min (case None of None \<Rightarrow> 0 | Some s \<Rightarrow> s) (len_ms seg)) = 0"
    by (simp add: parse_position_def len_ms_def)
  show "parse_position seg (min (case Some n of None \<Rightarrow> len_ms seg | Some e \<Rightarrow> e) (len_ms seg))
          = min n (len_ms seg)"
    using assms by (auto simp: parse_position_def len_ms_def min_def)
  show "py_slice seg 0 (min n (len_ms seg)) = take (nat n) seg"
    using assms by (simp add: py_slice_nonneg len_ms_def min_def)
  show "min n (len_ms seg) - 0 \<le> int (length (take (nat n) seg))"
    using assms by (simp add: len_ms_def min_def)
qed

lemma getitem_slice_from:
  assumes "0 \<le> n"
  shows "getitem_slice mul seg (Some n) None = Inr (drop (nat n) seg)"
proof (rule getitem_slice_no_missing)
  show "parse_position seg (min (case Some n of None \<Rightarrow> 0 | Some s \<Rightarrow> s) (len_ms seg))
          = min n (len_ms seg)"
    using assms by (auto simp: parse_position_def len_ms_def min_def)
  show "parse_position seg (min (case None of None \<Rightarrow> len_ms seg | Some e \<Rightarrow> e) (len_ms seg))
          = len_ms seg"
    by (simp add: parse_position_def len_ms_def)
  show "py_slice seg (min n (len_ms seg)) (len_ms seg) = drop (nat n) seg"
    using assms by (simp add: py_slice_nonneg len_ms_def min_def)
  show "len_ms seg - min n (len_ms seg) \<le> int (length (drop (nat n) seg))"
    using assms by (simp add: len_ms_def min_def)
qed



lemma get_frame_nonneg:
  "0 \<le> i \<Longrightarrow> get_frame seg i = take 1 (drop (nat i) seg)"
  by (simp add: get_frame_def py_slice_nonneg nat_add_distrib)

lemma get_frame_inside:
  "0 \<le> i \<Longrightarrow> nat i < length seg \<Longrightarrow> get_frame seg i = [seg ! nat i]"
  by (simp add: get_frame_nonneg take_Suc_conv_app_nth Cons_nth_drop_Suc[symmetric])


text \<open>The faded frames, and the two fades with the window of 20 ms that the source asks for.\<close>

lemma fade_frames_Suc:
  "fade_frames mul seg fp ss start (Suc n) =
     fade_frames mul seg fp ss start n
     @ map (\<lambda>x. mul x (fp + ss * of_nat n)) (get_frame seg (start + int n))"
  by (simp add: fade_frames_def)

lemma fade_frames_0: "fade_frames mul seg fp ss start 0 = []"
  by (simp add: fade_frames_def)

lemma fade_frames_inside:
  "0 \<le> start \<Longrightarrow> nat start + n \<le> length seg \<Longrightarrow>
   fade_frames mul seg fp ss start n =
     map (\<lambda>i. mul (seg ! (nat start + i)) (fp + ss * of_nat i)) [0..<n]"
proof (induction n)
  case 0
  then show ?case by (simp add: fade_frames_0)
next
  case (Suc n)
  have "get_frame seg (start + int n) = [seg ! (nat start + n)]"
    using Suc.prems by (simp add: get_frame_inside nat_add_distrib)
  with Suc show ?case by (simp add: fade_frames_Suc)
qed



lemma db_to_float_0: "db_to_float 0 = 1"
  by (simp add: db_to_float_def)

lemma db_to_float_m120: "db_to_float (- 120) = 1 / 1000000"
  by (simp add: db_to_float_def)



lemma fade_in_20:
  "fade_in mul 20 seg =
     Inr (fade_frames mul seg (1 / 1000000) ((1 - 1 / 1000000) / 20) 0 20 @ drop 20 seg)"
  by (simp add: fade_in_def fade_def fade_in_window_def len_ms_def Let_def
      getitem_slice_to getitem_slice_from db_to_float_0 db_to_float_m120)






lemma fade_in_20_long:
  assumes "20 \<le> length seg"
  shows "fade_in mul 20 seg =
     Inr (map (\<lambda>i. mul (seg ! i) (1 / 1000000 + ((1 - 1 / 1000000) / 20) * of_nat i)) [0..<20]
          @ drop 20 seg)"
proof -
  have "nat 0 + 20 \<le> length seg" using assms by simp
  from fade_frames_inside[OF _ this, of mul "1 / 1000000" "(1 - 1 / 1000000) / 20"] show ?thesis
    by (simp add: fade_in_20)
qed




section \<open>The replacement segment and one splice\<close>











lemma splice_step_nonneg:
  assumes "0 \<le> start_ms inst" "0 \<le> end_ms inst"
    and "adjusted_replacement mul clip (end_ms inst - start_ms inst) = Inr r"
  shows "splice_step mul clip audio inst =
           Inr (take (nat (start_ms inst)) audio @ r @ drop (nat (end_ms inst)) audio)"
  using assms by (simp add: splice_step_def Let_def getitem_slice_to getitem_slice_from)

section \<open>Original frames through the loop\<close>








section \<open>Properties\<close>

subsection \<open>Duration after splicing\<close>

text \<open>
  C1. The claim: for intervals sorted by start, pairwise disjoint and inside the buffer,
  the output lasts \<open>original - sum of interval durations + sum of min (interval duration)
  (clip duration)\<close>.  The loop cuts every interval out of the buffer as the earlier
  splices left it, at the interval's position in the original audio.  Once a splice has
  shortened the buffer, the later positions point too far right.  At an audio of
  1000 ms, a clip of 100 ms and the words \<open>[0 s, 0.5 s)\<close> and \<open>[0.75 s, 1 s)\<close>, the first
  splice leaves 600 ms; the second keeps all of it (\<^verbatim>\<open>audio[:750]\<close>), appends the clip
  and finds \<^verbatim>\<open>audio[1000:]\<close> empty.  The output is the clip, the original frames
  500 to 999 (the second word, frames 750 to 999, among them) and the clip again: 700 ms
  where the formula gives \<open>1000 - 500 - 250 + 100 + 100 = 450\<close>.
\<close>

theorem replace_profanity_drift:
  "snd (replace_profanity (tag_mul (\<lambda>x g. x) (\<lambda>x g. x)) (map Inr [0..<100::nat])
          (map Inl [0..<1000::nat])
          [\<lparr>word = ''a'', start_time = 0, end_time = 1 / 2, censored_text = ''*''\<rparr>,
           \<lparr>word = ''b'', start_time = 3 / 4, end_time = 1, censored_text = ''*''\<rparr>])
   = Inr (map Inr [0..<100] @ map Inl [500..<1000] @ map Inr [0..<100])"
proof -
  let ?m = "tag_mul (\<lambda>x g. x) (\<lambda>x g. x) :: nat + nat \<Rightarrow> rat \<Rightarrow> nat + nat"
  let ?clip = "map Inr [0..<100::nat] :: (nat + nat) list"
  let ?a = "\<lparr>word = ''a'', start_time = 0, end_time = 1 / 2, censored_text = ''*''\<rparr>"
  let ?b = "\<lparr>word = ''b'', start_time = 3 / 4, end_time = 1, censored_text = ''*''\<rparr>"
  have srt: "sort_key start_time [?a, ?b] = [?a, ?b]" by simp
  have ms: "start_ms ?a = 0" "end_ms ?a = 500" "start_ms ?b = 750" "end_ms ?b = 1000"
    by code_simp+
  have r1: "adjusted_replacement ?m ?clip 500 = Inr ?clip" by code_simp
  have r2: "adjusted_replacement ?m ?clip 250 = Inr ?clip" by code_simp
  have s1: "splice_step ?m ?clip (map Inl [0..<1000]) ?a = Inr (?clip @ map Inl [500..<1000])"
    using splice_step_nonneg[of ?a ?m ?clip _ "map Inl [0..<1000]"] r1
    by (simp only: ms drop_map drop_upt take_0 append_Nil nat_numeral nat_0) simp
  have s2: "splice_step ?m ?clip (?clip @ map Inl [500..<1000]) ?b
              = Inr (?clip @ map Inl [500..<1000] @ ?clip)"
    using splice_step_nonneg[of ?b ?m ?clip _ "?clip @ map Inl [500..<1000]"] r2
    by (simp add: ms del: upt_rec_numeral)
  show ?thesis
    by (simp only: replace_profanity_def Let_def srt snd_conv splice_loop.simps s1 s2 sum.case)
qed

subsection \<open>Original frames are used at most once\<close>




subsection \<open>The fades\<close>




subsection \<open>No detections\<close>

text \<open>
  C4. Splicing with an empty list of flagged intervals returns the original audio
  buffer unchanged, for every audio buffer and every replacement clip; the list stays
  empty.
\<close>

theorem replace_profanity_no_detections:
  "replace_profanity mul replacement_sound audio [] = ([], Inr audio)"
  by (simp add: replace_profanity_def)

subsection \<open>A single interval\<close>




subsection \<open>Millisecond bounds\<close>




subsection \<open>The order of the flagged intervals\<close>

text \<open>
  C7. For every word timeline, after the scanner (\<^verbatim>\<open>_detect_profanity\<close>) has run and
  \<^verbatim>\<open>_replace_profanity\<close> has sorted the flagged intervals, every adjacent pair satisfies
  \<open>intervals[i].start \<le> intervals[i+1].start\<close>, and the sort is stable: the intervals with
  one start time keep the order the scanner gave them.
\<close>

theorem instances_sorted_stable:
  "(\<forall>i. Suc i < length (fst (replace_profanity mul replacement_sound audio
                              (detect_profanity contains_profanity censor text_segments))) \<longrightarrow>
        start_time (fst (replace_profanity mul replacement_sound audio
                      (detect_profanity contains_profanity censor text_segments)) ! i)
        \<le> start_time (fst (replace_profanity mul replacement_sound audio
                      (detect_profanity contains_profanity censor text_segments)) ! Suc i))
   \<and> (\<forall>t. filter (\<lambda>x. start_time x = t)
             (fst (replace_profanity mul replacement_sound audio
                     (detect_profanity contains_profanity censor text_segments)))
          = filter (\<lambda>x. start_time x = t)
              (detect_profanity contains_profanity censor text_segments))"
proof -
  let ?xs = "detect_profanity contains_profanity censor text_segments"
  have r: "fst (replace_profanity mul replacement_sound audio ?xs) = sort_key start_time ?xs"
    by (simp add: replace_profanity_def Let_def)
  have "sorted (map start_time (sort_key start_time ?xs))" by (rule sorted_sort_key)
  then have "\<forall>i. Suc i < length (sort_key start_time ?xs) \<longrightarrow>
        start_time (sort_key start_time ?xs ! i) \<le> start_time (sort_key start_time ?xs ! Suc i)"
    by (auto simp: sorted_iff_nth_Suc)
  then show ?thesis unfolding r by (simp add: sort_key_stable)
qed

text \<open>The theorem at a timeline whose flagged words come out of order, two of them with
  the same start time.\<close>

theorem instances_sorted_stable_witness:
  "Suc 0 < length (fst (replace_profanity (\<lambda>x g. x) [0..<40::nat] [0..<10::nat]
        (detect_profanity (\<lambda>w. w \<noteq> ''ok'') (\<lambda>w. ''****'')
           [\<lparr>word = ''b1'', start_time = 1 / 2, end_time = 3 / 4\<rparr>,
            \<lparr>word = ''ok'', start_time = 1 / 8, end_time = 1 / 4\<rparr>,
            \<lparr>word = ''a'', start_time = 1 / 4, end_time = 1 / 2\<rparr>,
            \<lparr>word = ''b2'', start_time = 1 / 2, end_time = 1\<rparr>])))
   \<and> map word (fst (replace_profanity (\<lambda>x g. x) [0..<40::nat] [0..<10::nat]
        (detect_profanity (\<lambda>w. w \<noteq> ''ok'') (\<lambda>w. ''****'')
           [\<lparr>word = ''b1'', start_time = 1 / 2, end_time = 3 / 4\<rparr>,
            \<lparr>word = ''ok'', start_time = 1 / 8, end_time = 1 / 4\<rparr>,
            \<lparr>word = ''a'', start_time = 1 / 4, end_time = 1 / 2\<rparr>,
            \<lparr>word = ''b2'', start_time = 1 / 2, end_time = 1\<rparr>]))) = [''a'', ''b1'', ''b2'']
   \<and> start_time (fst (replace_profanity (\<lambda>x g. x) [0..<40::nat] [0..<10::nat]
        (detect_profanity (\<lambda>w. w \<noteq> ''ok'') (\<lambda>w. ''****'')
           [\<lparr>word = ''b1'', start_time = 1 / 2, end_time = 3 / 4\<rparr>,
            \<lparr>word = ''ok'', start_time = 1 / 8, end_time = 1 / 4\<rparr>,
            \<lparr>word = ''a'', start_time = 1 / 4, end_time = 1 / 2\<rparr>,
            \<lparr>word = ''b2'', start_time = 1 / 2, end_time = 1\<rparr>])) ! 0)
     \<le> start_time (fst (replace_profanity (\<lambda>x g. x) [0..<40::nat] [0..<10::nat]
        (detect_profanity (\<lambda>w. w \<noteq> ''ok'') (\<lambda>w. ''****'')
           [\<lparr>word = ''b1'', start_time = 1 / 2, end_time = 3 / 4\<rparr>,
            \<lparr>word = ''ok'', start_time = 1 / 8, end_time = 1 / 4\<rparr>,
            \<lparr>word = ''a'', start_time = 1 / 4, end_time = 1 / 2\<rparr>,
            \<lparr>word = ''b2'', start_time = 1 / 2, end_time = 1\<rparr>])) ! Suc 0)"
proof -
  let ?r = "fst (replace_profanity (\<lambda>x g. x) [0..<40::nat] [0..<10::nat]
        (detect_profanity (\<lambda>w. w \<noteq> ''ok'') (\<lambda>w. ''****'')
           [\<lparr>word = ''b1'', start_time = 1 / 2, end_time = 3 / 4\<rparr>,
            \<lparr>word = ''ok'', start_time = 1 / 8, end_time = 1 / 4\<rparr>,
            \<lparr>word = ''a'', start_time = 1 / 4, end_time = 1 / 2\<rparr>,
            \<lparr>word = ''b2'', start_time = 1 / 2, end_time = 1\<rparr>]))"
  have h: "Suc 0 < length ?r" by code_simp
  have w: "map word ?r = [''a'', ''b1'', ''b2'']" by code_simp
  have "start_time (?r ! 0) \<le> start_time (?r ! Suc 0)"
    using instances_sorted_stable[of "\<lambda>x g. x" "[0..<40::nat]" "[0..<10::nat]"
        "\<lambda>w. w \<noteq> ''ok''" "\<lambda>w. ''****''"
        "[\<lparr>word = ''b1'', start_time = 1 / 2, end_time = 3 / 4\<rparr>,
            \<lparr>word = ''ok'', start_time = 1 / 8, end_time = 1 / 4\<rparr>,
            \<lparr>word = ''a'', start_time = 1 / 4, end_time = 1 / 2\<rparr>,
            \<lparr>word = ''b2'', start_time = 1 / 2, end_time = 1\<rparr>]"] h
    by blast
  then show ?thesis using h w by blast
qed

subsection \<open>The report without detections\<close>

text \<open>
  C8. When the list of flagged intervals is empty, the report is the header followed by
  exactly the line \<^verbatim>\<open>No profanity detected in the audio.\<close> with its newline, and what is
  written holds no count line (\<^verbatim>\<open>Total instances found: ...\<close>).
\<close>

theorem save_report_no_detections:
  "save_report fmt2 [] = report_header @ ''No profanity detected in the audio.\<newline>''
   \<and> save_report fmt2 []
       = ''Audio Content Moderation Report\<newline>==============================\<newline>\<newline>No profanity detected in the audio.\<newline>''
   \<and> \<not> sublist ''Total instances found'' (save_report fmt2 [])"
  by code_simp

subsection \<open>Determinism\<close>



subsection \<open>The caller's list\<close>

text \<open>
  C10. \<^verbatim>\<open>_replace_profanity\<close> sorts its list argument in place: after the call the store
  is the store before with the contents of that one list object replaced by the same
  instances sorted ascending by \<open>start_time\<close>, and no list object has been created.
  When \<^verbatim>\<open>process_audio\<close> returns, the reference it returns is the list object that
  \<^verbatim>\<open>_detect_profanity\<close> built (the only object created), and the object now holds the
  detected instances sorted by \<open>start_time\<close>: the same object reordered, not a copy.
\<close>

theorem sort_mutates_callers_list:
  "fst (replace_profanity_obj mul replacement_sound h audio ref)
     = h\<lparr>cells := (cells h)(ref := sort_key start_time (cells h ref))\<rparr>
   \<and> next_free (fst (replace_profanity_obj mul replacement_sound h audio ref)) = next_free h
   \<and> (snd (process_audio mul strip_lower contains_profanity censor replacement_sound h audio result)
        = Inr (processed_audio, returned) \<longrightarrow>
      returned = next_free h
      \<and> next_free (fst (process_audio mul strip_lower contains_profanity censor replacement_sound
                          h audio result)) = Suc (next_free h)
      \<and> cells (fst (process_audio mul strip_lower contains_profanity censor replacement_sound
                      h audio result)) returned
          = sort_key start_time
              (detect_profanity contains_profanity censor (transcribe_audio strip_lower result))
      \<and> (\<forall>a. a \<noteq> returned \<longrightarrow>
            cells (fst (process_audio mul strip_lower contains_profanity censor replacement_sound
                          h audio result)) a = cells h a))"
  by (auto simp: replace_profanity_obj_def process_audio_def new_list_def replace_profanity_def
      Let_def split: sum.splits prod.splits)

text \<open>The theorem at a run of \<^verbatim>\<open>process_audio\<close> on a transcription with two flagged
  words out of order, in a store whose first free address is 3.\<close>

theorem sort_mutates_callers_list_witness:
  "snd (process_audio (\<lambda>x g. x) (\<lambda>w. w) (\<lambda>w. w \<noteq> ''ok'') (\<lambda>w. ''****'') [0..<40::nat]
          \<lparr>cells = (\<lambda>a. []), next_free = 3\<rparr> [0..<100::nat]
          [Some [\<lparr>ww_word = ''b'', ww_start = 1 / 16, ww_end = 3 / 32\<rparr>,
                 \<lparr>ww_word = ''ok'', ww_start = 1 / 8, ww_end = 1 / 4\<rparr>], None,
           Some [\<lparr>ww_word = ''a'', ww_start = 0, ww_end = 1 / 32\<rparr>]])
     = Inr ([0..<31] @ [31..<62] @ [0..<31] @ [93..<100], 3)
   \<and> map word (cells (fst (process_audio (\<lambda>x g. x) (\<lambda>w. w) (\<lambda>w. w \<noteq> ''ok'') (\<lambda>w. ''****'')
          [0..<40::nat] \<lparr>cells = (\<lambda>a. []), next_free = 3\<rparr> [0..<100::nat]
          [Some [\<lparr>ww_word = ''b'', ww_start = 1 / 16, ww_end = 3 / 32\<rparr>,
                 \<lparr>ww_word = ''ok'', ww_start = 1 / 8, ww_end = 1 / 4\<rparr>], None,
           Some [\<lparr>ww_word = ''a'', ww_start = 0, ww_end = 1 / 32\<rparr>]])) 3) = [''a'', ''b'']"
proof -
  let ?run = "process_audio (\<lambda>x g. x) (\<lambda>w. w) (\<lambda>w. w \<noteq> ''ok'') (\<lambda>w. ''****'') [0..<40::nat]
          \<lparr>cells = (\<lambda>a. []), next_free = 3\<rparr> [0..<100::nat]
          [Some [\<lparr>ww_word = ''b'', ww_start = 1 / 16, ww_end = 3 / 32\<rparr>,
                 \<lparr>ww_word = ''ok'', ww_start = 1 / 8, ww_end = 1 / 4\<rparr>], None,
           Some [\<lparr>ww_word = ''a'', ww_start = 0, ww_end = 1 / 32\<rparr>]]"
  have h: "snd ?run = Inr ([0..<31] @ [31..<62] @ [0..<31] @ [93..<100], 3)" by code_simp
  have srt: "map word (sort_key start_time (detect_profanity (\<lambda>w. w \<noteq> ''ok'') (\<lambda>w. ''****'')
      (transcribe_audio (\<lambda>w. w)
          [Some [\<lparr>ww_word = ''b'', ww_start = 1 / 16, ww_end = 3 / 32\<rparr>,
                 \<lparr>ww_word = ''ok'', ww_start = 1 / 8, ww_end = 1 / 4\<rparr>], None,
           Some [\<lparr>ww_word = ''a'', ww_start = 0, ww_end = 1 / 32\<rparr>]]))) = [''a'', ''b'']"
    by code_simp
  have "cells (fst ?run) 3 = sort_key start_time (detect_profanity (\<lambda>w. w \<noteq> ''ok'') (\<lambda>w. ''****'')
      (transcribe_audio (\<lambda>w. w)
          [Some [\<lparr>ww_word = ''b'', ww_start = 1 / 16, ww_end = 3 / 32\<rparr>,
                 \<lparr>ww_word = ''ok'', ww_start = 1 / 8, ww_end = 1 / 4\<rparr>], None,
           Some [\<lparr>ww_word = ''a'', ww_start = 0, ww_end = 1 / 32\<rparr>]]))"
    using sort_mutates_callers_list[of "\<lambda>x g. x" "[0..<40::nat]" "\<lparr>cells = (\<lambda>a. []), next_free = 3\<rparr>"
        "[0..<100::nat]" 0 "\<lambda>w. w" "\<lambda>w. w \<noteq> ''ok''" "\<lambda>w. ''****''"
        "[Some [\<lparr>ww_word = ''b'', ww_start = 1 / 16, ww_end = 3 / 32\<rparr>,
                 \<lparr>ww_word = ''ok'', ww_start = 1 / 8, ww_end = 1 / 4\<rparr>], None,
           Some [\<lparr>ww_word = ''a'', ww_start = 0, ww_end = 1 / 32\<rparr>]]"
        "[0..<31] @ [31..<62] @ [0..<31] @ [93..<100]" 3] h
    by blast
  then show ?thesis using h srt by simp
qed

end
